theory Spec2Isabelle
  imports Complex_Main "HOL-Library.Word" "HOL-Library.Sublist"
begin

section \<open>The command line of audiowmark (src/src/audiowmark.cc)\<close>

text \<open>
  The development follows \<^verbatim>\<open>audiowmark.cc\<close>: the argument parser \<^verbatim>\<open>ArgParser\<close>,
  the option parsers built on it, \<^verbatim>\<open>main\<close>, and the commands implemented in the file
  itself (\<^verbatim>\<open>gen_key\<close>, \<^verbatim>\<open>test_speed\<close>, \<^verbatim>\<open>test_gen_noise\<close>, \<^verbatim>\<open>test_clip\<close>).
  A C++ \<^verbatim>\<open>std::string\<close> is a \<^typ>\<open>string\<close>, a \<^verbatim>\<open>vector<string>\<close> a \<^typ>\<open>string list\<close>, an
  iterator into it an index of type \<^typ>\<open>nat\<close> (\<^verbatim>\<open>end()\<close> is the length), a
  \<^verbatim>\<open>size_t\<close> a \<^typ>\<open>64 word\<close>, an \<^verbatim>\<open>int\<close> an \<^typ>\<open>int\<close> (signed overflow is undefined in
  C++ and is excluded by hypotheses where it could happen). A \<^verbatim>\<open>double\<close> or \<^verbatim>\<open>float\<close> is
  read as the real number it denotes; the rounding of the single floating-point
  operations is not modelled.
\<close>

subsection \<open>ArgParser\<close>

text \<open>
  \<^verbatim>\<open>is_option\<close>: a single \<^verbatim>\<open>-\<close> is not an option (stdin / stdout); \<^verbatim>\<open>--foo\<close> or
  \<^verbatim>\<open>-f\<close> is.
\<close>

definition is_option :: "string \<Rightarrow> bool" where
  "is_option arg \<longleftrightarrow> length arg > 1 \<and> hd arg = CHR ''-''"

text \<open>\<^verbatim>\<open>s.substr (0, start.size()) == start\<close>\<close>

definition starts_with :: "string \<Rightarrow> string \<Rightarrow> bool" where
  "starts_with s start \<longleftrightarrow> take (length start) s = start"

text \<open>
  \<^verbatim>\<open>m_args.erase (it)\<close> and \<^verbatim>\<open>m_args.erase (it, it + 2)\<close>; both return the iterator
  to the element after the erased ones, which has the index \<open>it\<close> again.
\<close>

definition erase :: "'a list \<Rightarrow> nat \<Rightarrow> 'a list" where
  "erase xs it = take it xs @ drop (Suc it) xs"

definition erase2 :: "'a list \<Rightarrow> nat \<Rightarrow> 'a list" where
  "erase2 xs it = take it xs @ drop (it + 2) xs"

text \<open>
  \<^verbatim>\<open>parse_cmd\<close>: the result is the value returned and the remaining arguments
  (\<^verbatim>\<open>m_command\<close> is the command whenever the value is true).
\<close>

definition parse_cmd :: "string \<Rightarrow> string list \<Rightarrow> bool \<times> string list" where
  "parse_cmd cmd m_args =
     (if m_args \<noteq> [] \<and> m_args ! 0 = cmd then (True, erase m_args 0) else (False, m_args))"

text \<open>
  The loop of \<^verbatim>\<open>parse_opt (const string& option, string& out_s)\<close>. The state is the
  argument vector, the iterator, \<^verbatim>\<open>found_option\<close> and the reference \<^verbatim>\<open>out_s\<close>; the
  result is the value returned, the final \<^verbatim>\<open>out_s\<close> and the final \<^verbatim>\<open>m_args\<close>.
\<close>

function parse_opt_loop ::
  "string \<Rightarrow> string list \<Rightarrow> nat \<Rightarrow> bool \<Rightarrow> string \<Rightarrow> bool \<times> string \<times> string list" where
  "parse_opt_loop option m_args it found_option out_s =
     (if it < length m_args then
        (if m_args ! it = option \<and> Suc it < length m_args then
           parse_opt_loop option (erase2 m_args it) it True (m_args ! Suc it)
         else if starts_with (m_args ! it) (option @ ''='') then
           parse_opt_loop option (erase m_args it) it True
             (drop (length option + 1) (m_args ! it))
         else parse_opt_loop option m_args (Suc it) found_option out_s)
      else (found_option, out_s, m_args))"
  by pat_completeness auto
termination
  by (relation "measure (\<lambda>(option, m_args, it, found_option, out_s). length m_args - it)")
    (auto simp: erase_def erase2_def)

declare parse_opt_loop.simps [simp del]

definition parse_opt_string :: "string \<Rightarrow> string \<Rightarrow> string list \<Rightarrow> bool \<times> string \<times> string list" where
  "parse_opt_string option out_s m_args = parse_opt_loop option m_args 0 False out_s"

text \<open>
  The C library's \<^verbatim>\<open>atoi\<close> and \<^verbatim>\<open>atof\<close>, and \<^verbatim>\<open>short_code_init\<close> of
  \<^verbatim>\<open>shortcode.hh\<close> (not part of the sources), are parameters of the model.
\<close>

record externals =
  atoi :: "string \<Rightarrow> int"
  atof :: "string \<Rightarrow> real"
  short_code_init :: "64 word \<Rightarrow> bool"

text \<open>
  \<^verbatim>\<open>parse_opt (const string& option, int& out_i)\<close> and
  \<^verbatim>\<open>parse_opt (const string& option, float& out_f)\<close>: the local \<^verbatim>\<open>out_s\<close> starts empty.
\<close>

definition parse_opt_int ::
  "externals \<Rightarrow> string \<Rightarrow> int \<Rightarrow> string list \<Rightarrow> bool \<times> int \<times> string list" where
  "parse_opt_int ext option out_i m_args =
     (case parse_opt_string option [] m_args of
        (found, out_s, m_args') \<Rightarrow>
          if found then (True, atoi ext out_s, m_args') else (False, out_i, m_args'))"

definition parse_opt_float ::
  "externals \<Rightarrow> string \<Rightarrow> real \<Rightarrow> string list \<Rightarrow> bool \<times> real \<times> string list" where
  "parse_opt_float ext option out_f m_args =
     (case parse_opt_string option [] m_args of
        (found, out_s, m_args') \<Rightarrow>
          if found then (True, atof ext out_s, m_args') else (False, out_f, m_args'))"

text \<open>
  \<^verbatim>\<open>parse_opt (const string& option)\<close>: the first argument equal to the option is erased.
\<close>

function parse_opt_flag_loop :: "string \<Rightarrow> string list \<Rightarrow> nat \<Rightarrow> bool \<times> string list" where
  "parse_opt_flag_loop option m_args it =
     (if it < length m_args then
        (if m_args ! it = option then (True, erase m_args it)
         else parse_opt_flag_loop option m_args (Suc it))
      else (False, m_args))"
  by pat_completeness auto
termination
  by (relation "measure (\<lambda>(option, m_args, it). length m_args - it)") auto

declare parse_opt_flag_loop.simps [simp del]

definition parse_opt_flag :: "string \<Rightarrow> string list \<Rightarrow> bool \<times> string list" where
  "parse_opt_flag option m_args = parse_opt_flag_loop option m_args 0"

text \<open>\<^verbatim>\<open>parse_args\<close>: \<open>None\<close> is the return value false.\<close>

definition parse_args :: "nat \<Rightarrow> string list \<Rightarrow> string list option" where
  "parse_args expected_count m_args =
     (if length m_args = expected_count then
        (if list_ex is_option m_args then None else Some m_args)
      else None)"

subsection \<open>Errors, global parameters and outcomes\<close>

text \<open>
  The errors that the file prints with \<^verbatim>\<open>error (...)\<close>, each with the values printed
  into its message (the two messages at the end of \<^verbatim>\<open>parse_positional\<close> are one
  error).
\<close>

datatype error_message =
    Unsupported_format string
  | Unsupported_endianness string
  | Unsupported_encoding string
  | Unsupported_short_payload_size "64 word"
  | Key_set_more_than_once
  | Only_one_speed_option
  | Unsupported_option string string
  | Error_parsing_arguments string "string list"
  | Unsupported_global_option string
  | Unsupported_command string
  | Error_parsing_commandline
  | Error_writing_to_file string
  | Error_loading string string
  | Error_saving string string

datatype Format = AUTO | RAW

datatype Endian = LITTLE | BIG

datatype Encoding = SIGNED | UNSIGNED

text \<open>
  \<^verbatim>\<open>RawFormat\<close> is declared in a header that is not part of the sources; the setters
  that \<^verbatim>\<open>parse_add_options\<close> calls are taken to store their argument.
\<close>

record RawFormat =
  raw_bit_depth :: int
  raw_endian :: Endian
  raw_encoding :: Encoding
  raw_channels :: int
  raw_sample_rate :: int

text \<open>
  The two calls that set the global key: \<^verbatim>\<open>Random::load_global_key (s)\<close> and
  \<^verbatim>\<open>Random::set_global_test_key (i)\<close> (\<^verbatim>\<open>random.hh\<close> is not part of the sources;
  both calls are taken to return).
\<close>

datatype key_source = Key_file string | Test_key int

text \<open>
  The members of \<^verbatim>\<open>Params\<close> that \<^verbatim>\<open>audiowmark.cc\<close> writes, the calls that set the
  global key in the order they were made, and whether \<^verbatim>\<open>set_log_level (Log::WARNING)\<close>
  was called. The initial values are defined outside the sources.
\<close>

record Params =
  water_delta :: real
  have_key :: int
  key_calls :: "key_source list"
  payload_size :: "64 word"
  payload_short :: bool
  frames_per_bit :: int
  mix :: bool
  input_label :: string
  output_label :: string
  snr :: bool
  input_format :: Format
  output_format :: Format
  raw_input_format :: RawFormat
  raw_output_format :: RawFormat
  test_no_limiter :: bool
  test_cut :: int
  test_truncate :: int
  hard :: bool
  test_no_sync :: bool
  detect_speed :: bool
  detect_speed_patient :: bool
  try_speed :: real
  Params_test_speed :: real
  json_output :: string
  expect_matches :: int
  hls_bit_rate :: int
  strict :: bool
  log_level_warning :: bool

text \<open>
  An option parser returns \<open>Inl e\<close> when it prints the error \<open>e\<close> and calls
  \<^verbatim>\<open>exit (1)\<close>, and otherwise \<open>Inr\<close> of the parameters and the remaining arguments.
\<close>

type_synonym parsed = "error_message + Params \<times> string list"

definition parse_format :: "string \<Rightarrow> error_message + Format" where
  "parse_format str =
     (if str = ''raw'' then Inr RAW
      else if str = ''auto'' then Inr AUTO
      else Inl (Unsupported_format str))"

definition parse_endian :: "string \<Rightarrow> error_message + Endian" where
  "parse_endian str =
     (if str = ''little'' then Inr LITTLE
      else if str = ''big'' then Inr BIG
      else Inl (Unsupported_endianness str))"

definition parse_encoding :: "string \<Rightarrow> error_message + Encoding" where
  "parse_encoding str =
     (if str = ''signed'' then Inr SIGNED
      else if str = ''unsigned'' then Inr UNSIGNED
      else Inl (Unsupported_encoding str))"

subsection \<open>The option parsers\<close>

text \<open>
  The locals \<^verbatim>\<open>int i; float f; string s;\<close> are read only after a successful
  \<^verbatim>\<open>parse_opt\<close> has written them; the model starts them at \<open>0\<close> and the empty string.
  \<^verbatim>\<open>Params::payload_size\<close> is a \<^verbatim>\<open>size_t\<close>: the assignment converts the \<^verbatim>\<open>int\<close>.
\<close>

definition parse_shared_options :: "externals \<Rightarrow> Params \<Rightarrow> string list \<Rightarrow> parsed" where
  "parse_shared_options ext P ap =
     (case parse_opt_float ext ''--strength'' 0 ap of (found_strength, f, ap) \<Rightarrow>
      let P = (if found_strength then P\<lparr>water_delta := f / 1000\<rparr> else P) in
      case parse_opt_string ''--key'' [] ap of (found_key, s, ap) \<Rightarrow>
      let P = (if found_key
               then P\<lparr>have_key := have_key P + 1, key_calls := key_calls P @ [Key_file s]\<rparr>
               else P) in
      case parse_opt_int ext ''--test-key'' 0 ap of (found_test_key, i, ap) \<Rightarrow>
      let P = (if found_test_key
               then P\<lparr>have_key := have_key P + 1, key_calls := key_calls P @ [Test_key i]\<rparr>
               else P) in
      case parse_opt_int ext ''--short'' i ap of (found_short, i, ap) \<Rightarrow>
      if found_short \<and> \<not> short_code_init ext (word_of_int i)
      then Inl (Unsupported_short_payload_size (word_of_int i))
      else
      let P = (if found_short then P\<lparr>payload_size := word_of_int i, payload_short := True\<rparr>
               else P) in
      case parse_opt_int ext ''--frames-per-bit'' (frames_per_bit P) ap of (found_fpb, fpb, ap) \<Rightarrow>
      let P = P\<lparr>frames_per_bit := fpb\<rparr> in
      case parse_opt_flag ''--linear'' ap of (found_linear, ap) \<Rightarrow>
      let P = (if found_linear then P\<lparr>mix := False\<rparr> else P) in
      if have_key P > 1 then Inl Key_set_more_than_once else Inr (P, ap))"

definition and_then :: "'e + 'a \<Rightarrow> ('a \<Rightarrow> 'e + 'b) \<Rightarrow> 'e + 'b" where
  "and_then r f = (case r of Inl e \<Rightarrow> Inl e | Inr x \<Rightarrow> f x)"

text \<open>
  The pattern \<^verbatim>\<open>if (ap.parse_opt (option, s)) { auto v = parse (s); set (v); }\<close> of
  \<^verbatim>\<open>parse_add_options\<close>, where \<^verbatim>\<open>parse\<close> may exit, and the same with an \<^verbatim>\<open>int\<close>.
\<close>

definition parsed_opt ::
  "string \<Rightarrow> (string \<Rightarrow> error_message + 'v) \<Rightarrow> ('v \<Rightarrow> Params \<Rightarrow> Params) \<Rightarrow>
   Params \<times> string list \<Rightarrow> parsed" where
  "parsed_opt option parse store = (\<lambda>(P, ap).
     case parse_opt_string option [] ap of (found, s, ap) \<Rightarrow>
       if found then and_then (parse s) (\<lambda>v. Inr (store v P, ap)) else Inr (P, ap))"

definition int_opt ::
  "externals \<Rightarrow> string \<Rightarrow> (int \<Rightarrow> Params \<Rightarrow> Params) \<Rightarrow> Params \<times> string list \<Rightarrow> parsed" where
  "int_opt ext option store = (\<lambda>(P, ap).
     case parse_opt_int ext option 0 ap of (found, i, ap) \<Rightarrow>
       Inr (if found then store i P else P, ap))"

definition parse_add_options :: "externals \<Rightarrow> Params \<Rightarrow> string list \<Rightarrow> parsed" where
  "parse_add_options ext P ap =
     (case parse_opt_string ''--set-input-label'' (input_label P) ap of (found_il, il, ap) \<Rightarrow>
      let P = P\<lparr>input_label := il\<rparr> in
      case parse_opt_string ''--set-output-label'' (output_label P) ap of (found_ol, ol, ap) \<Rightarrow>
      let P = P\<lparr>output_label := ol\<rparr> in
      case parse_opt_flag ''--snr'' ap of (found_snr, ap) \<Rightarrow>
      let P = (if found_snr then P\<lparr>snr := True\<rparr> else P) in
      and_then (parsed_opt ''--input-format'' parse_format
        (\<lambda>v P. P\<lparr>input_format := v\<rparr>) (P, ap)) (\<lambda>Pa.
      and_then (parsed_opt ''--output-format'' parse_format
        (\<lambda>v P. P\<lparr>output_format := v\<rparr>) Pa) (\<lambda>Pa.
      and_then (parsed_opt ''--format'' parse_format
        (\<lambda>v P. P\<lparr>input_format := v, output_format := v\<rparr>) Pa) (\<lambda>Pa.
      and_then (int_opt ext ''--raw-input-bits''
        (\<lambda>i P. P\<lparr>raw_input_format := (raw_input_format P)\<lparr>raw_bit_depth := i\<rparr>\<rparr>) Pa) (\<lambda>Pa.
      and_then (int_opt ext ''--raw-output-bits''
        (\<lambda>i P. P\<lparr>raw_output_format := (raw_output_format P)\<lparr>raw_bit_depth := i\<rparr>\<rparr>) Pa) (\<lambda>Pa.
      and_then (int_opt ext ''--raw-bits''
        (\<lambda>i P. P\<lparr>raw_input_format := (raw_input_format P)\<lparr>raw_bit_depth := i\<rparr>,
                 raw_output_format := (raw_output_format P)\<lparr>raw_bit_depth := i\<rparr>\<rparr>) Pa) (\<lambda>Pa.
      and_then (parsed_opt ''--raw-input-endian'' parse_endian
        (\<lambda>e P. P\<lparr>raw_input_format := (raw_input_format P)\<lparr>raw_endian := e\<rparr>\<rparr>) Pa) (\<lambda>Pa.
      and_then (parsed_opt ''--raw-output-endian'' parse_endian
        (\<lambda>e P. P\<lparr>raw_output_format := (raw_output_format P)\<lparr>raw_endian := e\<rparr>\<rparr>) Pa) (\<lambda>Pa.
      and_then (parsed_opt ''--raw-endian'' parse_endian
        (\<lambda>e P. P\<lparr>raw_input_format := (raw_input_format P)\<lparr>raw_endian := e\<rparr>,
                 raw_output_format := (raw_output_format P)\<lparr>raw_endian := e\<rparr>\<rparr>) Pa) (\<lambda>Pa.
      and_then (parsed_opt ''--raw-input-encoding'' parse_encoding
        (\<lambda>e P. P\<lparr>raw_input_format := (raw_input_format P)\<lparr>raw_encoding := e\<rparr>\<rparr>) Pa) (\<lambda>Pa.
      and_then (parsed_opt ''--raw-output-encoding'' parse_encoding
        (\<lambda>e P. P\<lparr>raw_output_format := (raw_output_format P)\<lparr>raw_encoding := e\<rparr>\<rparr>) Pa) (\<lambda>Pa.
      and_then (parsed_opt ''--raw-encoding'' parse_encoding
        (\<lambda>e P. P\<lparr>raw_input_format := (raw_input_format P)\<lparr>raw_encoding := e\<rparr>,
                 raw_output_format := (raw_output_format P)\<lparr>raw_encoding := e\<rparr>\<rparr>) Pa) (\<lambda>Pa.
      and_then (int_opt ext ''--raw-channels''
        (\<lambda>i P. P\<lparr>raw_input_format := (raw_input_format P)\<lparr>raw_channels := i\<rparr>,
                 raw_output_format := (raw_output_format P)\<lparr>raw_channels := i\<rparr>\<rparr>) Pa) (\<lambda>Pa.
      and_then (int_opt ext ''--raw-rate''
        (\<lambda>i P. P\<lparr>raw_input_format := (raw_input_format P)\<lparr>raw_sample_rate := i\<rparr>,
                 raw_output_format := (raw_output_format P)\<lparr>raw_sample_rate := i\<rparr>\<rparr>) Pa) (\<lambda>(P, ap).
      case parse_opt_flag ''--test-no-limiter'' ap of (found_nl, ap) \<Rightarrow>
      Inr (if found_nl then P\<lparr>test_no_limiter := True\<rparr> else P, ap))))))))))))))))"

text \<open>\<^verbatim>\<open>speed_options\<close> counts the speed options that were found.\<close>

definition parse_get_options :: "externals \<Rightarrow> Params \<Rightarrow> string list \<Rightarrow> parsed" where
  "parse_get_options ext P ap =
     (case parse_opt_int ext ''--test-cut'' (test_cut P) ap of (found_cut, tc, ap) \<Rightarrow>
      let P = P\<lparr>test_cut := tc\<rparr> in
      case parse_opt_int ext ''--test-truncate'' (test_truncate P) ap of (found_tr, tr, ap) \<Rightarrow>
      let P = P\<lparr>test_truncate := tr\<rparr> in
      case parse_opt_flag ''--hard'' ap of (found_hard, ap) \<Rightarrow>
      let P = (if found_hard then P\<lparr>hard := True\<rparr> else P) in
      case parse_opt_flag ''--test-no-sync'' ap of (found_ns, ap) \<Rightarrow>
      let P = (if found_ns then P\<lparr>test_no_sync := True\<rparr> else P) in
      let speed_options = (0 :: int) in
      case parse_opt_flag ''--detect-speed'' ap of (found_ds, ap) \<Rightarrow>
      let P = (if found_ds then P\<lparr>detect_speed := True\<rparr> else P);
          speed_options = (if found_ds then speed_options + 1 else speed_options) in
      case parse_opt_flag ''--detect-speed-patient'' ap of (found_dsp, ap) \<Rightarrow>
      let P = (if found_dsp then P\<lparr>detect_speed_patient := True\<rparr> else P);
          speed_options = (if found_dsp then speed_options + 1 else speed_options) in
      case parse_opt_float ext ''--try-speed'' 0 ap of (found_ts, f, ap) \<Rightarrow>
      let speed_options = (if found_ts then speed_options + 1 else speed_options);
          P = (if found_ts then P\<lparr>try_speed := f\<rparr> else P) in
      if speed_options > 1 then Inl Only_one_speed_option
      else
      case parse_opt_float ext ''--test-speed'' f ap of (found_tsp, f, ap) \<Rightarrow>
      let P = (if found_tsp then P\<lparr>Params_test_speed := f\<rparr> else P) in
      case parse_opt_string ''--json'' [] ap of (found_json, s, ap) \<Rightarrow>
      let P = (if found_json then P\<lparr>json_output := s\<rparr> else P) in
      Inr (P, ap))"

text \<open>
  \<^verbatim>\<open>parse_positional\<close>: \<open>vs\<close> are the names of the positional arguments, \<open>command\<close> is
  \<^verbatim>\<open>ap.command()\<close>.
\<close>

definition parse_positional :: "string \<Rightarrow> string list \<Rightarrow> string list \<Rightarrow> error_message + string list" where
  "parse_positional command vs m_args =
     (case parse_args (length vs) m_args of
        Some args \<Rightarrow> Inr args
      | None \<Rightarrow>
          (case find is_option m_args of
             Some arg \<Rightarrow> Inl (Unsupported_option arg command)
           | None \<Rightarrow> Inl (Error_parsing_arguments command vs)))"

subsection \<open>main\<close>

text \<open>
  The functions that \<^verbatim>\<open>main\<close> hands over to. Those of other files (\<^verbatim>\<open>hls_add\<close>,
  \<^verbatim>\<open>hls_prepare\<close>, \<^verbatim>\<open>add_watermark\<close>, \<^verbatim>\<open>get_watermark\<close>) are not part of the sources:
  an outcome \<open>Calls c P\<close> says that \<^verbatim>\<open>main\<close> returns what the call \<open>c\<close> returns, made with
  the global parameters \<open>P\<close>.
\<close>

datatype command_call =
    Hls_add string string string
  | Hls_prepare string string string string
  | Add_watermark string string string
  | Get_watermark string string
  | Gen_key string
  | Gentest string string
  | Cut_start string string string
  | Test_subtract string string string
  | Test_snr string string
  | Test_clip string string int int
  | Test_speed int
  | Test_gen_noise string real int
  | Test_change_speed string string real
  | Test_resample string string int

datatype outcome =
    Usage_printed
  | Usage_hls_printed
  | Version_printed
  | Failed error_message
  | Calls command_call Params


definition finish :: "error_message + outcome \<Rightarrow> outcome" where
  "finish r = (case r of Inl e \<Rightarrow> Failed e | Inr out \<Rightarrow> out)"

text \<open>The branches of \<^verbatim>\<open>main\<close>, one for each command.\<close>

definition cmd_hls_add :: "externals \<Rightarrow> Params \<Rightarrow> string list \<Rightarrow> outcome" where
  "cmd_hls_add ext P ap = finish (
     and_then (parse_shared_options ext P ap) (\<lambda>(P, ap).
     case parse_opt_int ext ''--bit-rate'' (hls_bit_rate P) ap of (found, br, ap) \<Rightarrow>
     let P = P\<lparr>hls_bit_rate := br\<rparr> in
     and_then (parse_positional ''hls-add'' [''input_ts'', ''output_ts'', ''message_hex''] ap)
       (\<lambda>args. Inr (Calls (Hls_add (args ! 0) (args ! 1) (args ! 2)) P))))"

definition cmd_hls_prepare :: "externals \<Rightarrow> Params \<Rightarrow> string list \<Rightarrow> outcome" where
  "cmd_hls_prepare ext P ap = finish (
     case parse_opt_int ext ''--bit-rate'' (hls_bit_rate P) ap of (found, br, ap) \<Rightarrow>
     let P = P\<lparr>hls_bit_rate := br\<rparr> in
     and_then (parse_positional ''hls-prepare''
        [''input_dir'', ''output_dir'', ''playlist_name'', ''audio_master''] ap)
       (\<lambda>args. Inr (Calls (Hls_prepare (args ! 0) (args ! 1) (args ! 2) (args ! 3)) P)))"

definition cmd_add :: "externals \<Rightarrow> Params \<Rightarrow> string list \<Rightarrow> outcome" where
  "cmd_add ext P ap = finish (
     and_then (parse_shared_options ext P ap) (\<lambda>(P, ap).
     and_then (parse_add_options ext P ap) (\<lambda>(P, ap).
     and_then (parse_positional ''add'' [''input_wav'', ''watermarked_wav'', ''message_hex''] ap)
       (\<lambda>args. Inr (Calls (Add_watermark (args ! 0) (args ! 1) (args ! 2)) P)))))"

definition cmd_get :: "externals \<Rightarrow> Params \<Rightarrow> string list \<Rightarrow> outcome" where
  "cmd_get ext P ap = finish (
     and_then (parse_shared_options ext P ap) (\<lambda>(P, ap).
     and_then (parse_get_options ext P ap) (\<lambda>(P, ap).
     and_then (parse_positional ''get'' [''watermarked_wav''] ap)
       (\<lambda>args. Inr (Calls (Get_watermark (args ! 0) []) P)))))"

definition cmd_cmp :: "externals \<Rightarrow> Params \<Rightarrow> string list \<Rightarrow> outcome" where
  "cmd_cmp ext P ap = finish (
     and_then (parse_shared_options ext P ap) (\<lambda>(P, ap).
     and_then (parse_get_options ext P ap) (\<lambda>(P, ap).
     case parse_opt_int ext ''--expect-matches'' (expect_matches P) ap of (found, em, ap) \<Rightarrow>
     let P = P\<lparr>expect_matches := em\<rparr> in
     and_then (parse_positional ''cmp'' [''watermarked_wav'', ''message_hex''] ap)
       (\<lambda>args. Inr (Calls (Get_watermark (args ! 0) (args ! 1)) P)))))"

definition cmd_gen_key :: "Params \<Rightarrow> string list \<Rightarrow> outcome" where
  "cmd_gen_key P ap = finish (
     and_then (parse_positional ''gen-key'' [''key_file''] ap)
       (\<lambda>args. Inr (Calls (Gen_key (args ! 0)) P)))"

definition cmd_gentest :: "Params \<Rightarrow> string list \<Rightarrow> outcome" where
  "cmd_gentest P ap = finish (
     and_then (parse_positional ''gentest'' [''input_wav'', ''output_wav''] ap)
       (\<lambda>args. Inr (Calls (Gentest (args ! 0) (args ! 1)) P)))"

definition cmd_cut_start :: "Params \<Rightarrow> string list \<Rightarrow> outcome" where
  "cmd_cut_start P ap = finish (
     and_then (parse_positional ''cut-start'' [''input_wav'', ''output_wav'', ''cut_samples''] ap)
       (\<lambda>args. Inr (Calls (Cut_start (args ! 0) (args ! 1) (args ! 2)) P)))"

definition cmd_test_subtract :: "Params \<Rightarrow> string list \<Rightarrow> outcome" where
  "cmd_test_subtract P ap = finish (
     and_then (parse_positional ''test-subtract'' [''input1_wav'', ''input2_wav'', ''output_wav''] ap)
       (\<lambda>args. Inr (Calls (Test_subtract (args ! 0) (args ! 1) (args ! 2)) P)))"

definition cmd_test_snr :: "Params \<Rightarrow> string list \<Rightarrow> outcome" where
  "cmd_test_snr P ap = finish (
     and_then (parse_positional ''test-snr'' [''orig_wav'', ''watermarked_wav''] ap)
       (\<lambda>args. Inr (Calls (Test_snr (args ! 0) (args ! 1)) P)))"

definition cmd_test_clip :: "externals \<Rightarrow> Params \<Rightarrow> string list \<Rightarrow> outcome" where
  "cmd_test_clip ext P ap = finish (
     and_then (parse_shared_options ext P ap) (\<lambda>(P, ap).
     and_then (parse_positional ''test-clip'' [''input_wav'', ''output_wav'', ''seed'', ''seconds''] ap)
       (\<lambda>args. Inr (Calls (Test_clip (args ! 0) (args ! 1) (atoi ext (args ! 2))
          (atoi ext (args ! 3))) P))))"

definition cmd_test_speed :: "externals \<Rightarrow> Params \<Rightarrow> string list \<Rightarrow> outcome" where
  "cmd_test_speed ext P ap = finish (
     and_then (parse_shared_options ext P ap) (\<lambda>(P, ap).
     and_then (parse_positional ''test-speed'' [''seed''] ap)
       (\<lambda>args. Inr (Calls (Test_speed (atoi ext (args ! 0))) P))))"

definition cmd_test_gen_noise :: "externals \<Rightarrow> Params \<Rightarrow> string list \<Rightarrow> outcome" where
  "cmd_test_gen_noise ext P ap = finish (
     and_then (parse_shared_options ext P ap) (\<lambda>(P, ap).
     and_then (parse_positional ''test-gen-noise'' [''output_wav'', ''seconds'', ''sample_rate''] ap)
       (\<lambda>args. Inr (Calls (Test_gen_noise (args ! 0) (atof ext (args ! 1))
          (atoi ext (args ! 2))) P))))"

definition cmd_test_change_speed :: "externals \<Rightarrow> Params \<Rightarrow> string list \<Rightarrow> outcome" where
  "cmd_test_change_speed ext P ap = finish (
     and_then (parse_shared_options ext P ap) (\<lambda>(P, ap).
     and_then (parse_positional ''test-change-speed'' [''input_wav'', ''output_wav'', ''speed''] ap)
       (\<lambda>args. Inr (Calls (Test_change_speed (args ! 0) (args ! 1) (atof ext (args ! 2))) P))))"

definition cmd_test_resample :: "externals \<Rightarrow> Params \<Rightarrow> string list \<Rightarrow> outcome" where
  "cmd_test_resample ext P ap = finish (
     and_then (parse_shared_options ext P ap) (\<lambda>(P, ap).
     and_then (parse_positional ''test-resample'' [''input_wav'', ''output_wav'', ''new_rate''] ap)
       (\<lambda>args. Inr (Calls (Test_resample (args ! 0) (args ! 1) (atoi ext (args ! 2))) P))))"

text \<open>
  The chain of \<^verbatim>\<open>else if (ap.parse_cmd (...))\<close> in \<^verbatim>\<open>main\<close>. \<^verbatim>\<open>parse_cmd\<close> compares
  the first remaining argument only, so the chain is a case distinction on it.
\<close>

definition dispatch :: "externals \<Rightarrow> Params \<Rightarrow> string list \<Rightarrow> outcome" where
  "dispatch ext P ap =
     (case parse_cmd ''hls-add'' ap of (found, ap) \<Rightarrow>
      if found then cmd_hls_add ext P ap else
      case parse_cmd ''hls-prepare'' ap of (found, ap) \<Rightarrow>
      if found then cmd_hls_prepare ext P ap else
      case parse_cmd ''add'' ap of (found, ap) \<Rightarrow>
      if found then cmd_add ext P ap else
      case parse_cmd ''get'' ap of (found, ap) \<Rightarrow>
      if found then cmd_get ext P ap else
      case parse_cmd ''cmp'' ap of (found, ap) \<Rightarrow>
      if found then cmd_cmp ext P ap else
      case parse_cmd ''gen-key'' ap of (found, ap) \<Rightarrow>
      if found then cmd_gen_key P ap else
      case parse_cmd ''gentest'' ap of (found, ap) \<Rightarrow>
      if found then cmd_gentest P ap else
      case parse_cmd ''cut-start'' ap of (found, ap) \<Rightarrow>
      if found then cmd_cut_start P ap else
      case parse_cmd ''test-subtract'' ap of (found, ap) \<Rightarrow>
      if found then cmd_test_subtract P ap else
      case parse_cmd ''test-snr'' ap of (found, ap) \<Rightarrow>
      if found then cmd_test_snr P ap else
      case parse_cmd ''test-clip'' ap of (found, ap) \<Rightarrow>
      if found then cmd_test_clip ext P ap else
      case parse_cmd ''test-speed'' ap of (found, ap) \<Rightarrow>
      if found then cmd_test_speed ext P ap else
      case parse_cmd ''test-gen-noise'' ap of (found, ap) \<Rightarrow>
      if found then cmd_test_gen_noise ext P ap else
      case parse_cmd ''test-change-speed'' ap of (found, ap) \<Rightarrow>
      if found then cmd_test_change_speed ext P ap else
      case parse_cmd ''test-resample'' ap of (found, ap) \<Rightarrow>
      if found then cmd_test_resample ext P ap else
      if ap \<noteq> [] then
        (let s = hd ap in
         if is_option s then Failed (Unsupported_global_option s)
         else Failed (Unsupported_command s))
      else Failed Error_parsing_commandline)"

text \<open>
  \<^verbatim>\<open>main\<close>: \<open>args\<close> are \<^verbatim>\<open>argv[1]\<close> to \<^verbatim>\<open>argv[argc - 1]\<close>, \<open>P\<close> the initial global
  parameters. In \<^verbatim>\<open>a || b\<close> the second \<^verbatim>\<open>parse_opt\<close> runs only when the first found
  nothing.
\<close>

definition main :: "externals \<Rightarrow> Params \<Rightarrow> string list \<Rightarrow> outcome" where
  "main ext P args =
     (let ap = args in
      case parse_opt_flag ''--help'' ap of (help, ap) \<Rightarrow>
      case (if help then (True, ap) else parse_opt_flag ''-h'' ap) of (help, ap) \<Rightarrow>
      if help then Usage_printed else
      case parse_opt_flag ''--help-hls'' ap of (help_hls, ap) \<Rightarrow>
      if help_hls then Usage_hls_printed else
      case parse_opt_flag ''--version'' ap of (version, ap) \<Rightarrow>
      case (if version then (True, ap) else parse_opt_flag ''-v'' ap) of (version, ap) \<Rightarrow>
      if version then Version_printed else
      case parse_opt_flag ''--quiet'' ap of (quiet, ap) \<Rightarrow>
      case (if quiet then (True, ap) else parse_opt_flag ''-q'' ap) of (quiet, ap) \<Rightarrow>
      let P = (if quiet then P\<lparr>log_level_warning := True\<rparr> else P) in
      case parse_opt_flag ''--strict'' ap of (found_strict, ap) \<Rightarrow>
      let P = (if found_strict then P\<lparr>strict := True\<rparr> else P) in
      dispatch ext P ap)"

subsection \<open>The commands implemented in audiowmark.cc\<close>

text \<open>
  What a command does to the outside: a file written with its contents, an error
  printed, a number printed with \<^verbatim>\<open>printf ("%.6f\n", ...)\<close>, a signal saved to a file.
\<close>

record WavData =
  samples :: "real list"
  n_channels :: int
  sample_rate :: int
  bit_depth :: int

text \<open>
  \<^verbatim>\<open>WavData\<close> is declared in \<^verbatim>\<open>wavdata.hh\<close>, which is not part of the sources: the
  record holds the four arguments of its constructor, which the accessors of the same
  names return; \<^verbatim>\<open>n_values()\<close> is the number of samples (all channels).
\<close>

definition n_values :: "WavData \<Rightarrow> 64 word" where
  "n_values w = word_of_nat (length (samples w))"

datatype effect =
    Written string string
  | Error_printed error_message
  | Printed real
  | Saved string WavData

text \<open>
  Where C++ leaves the behaviour undefined (a floating-point value converted to an
  integer type that cannot hold it, a division by zero, a signed overflow) the model
  says so.
\<close>

datatype 'a defined = Undefined | Defined 'a

text \<open>
  \<^verbatim>\<open>gen_key\<close>: \<open>fopen_w\<close> says whether \<^verbatim>\<open>fopen (outfile, "w")\<close> succeeds, \<open>key\<close> is the
  string that \<^verbatim>\<open>Random::gen_key()\<close> returns (\<^verbatim>\<open>random.hh\<close> is not part of the
  sources). The result is the return value and what was done.
\<close>

definition newline :: char where
  "newline = CHR 0x0A"

definition gen_key :: "(string \<Rightarrow> bool) \<Rightarrow> string \<Rightarrow> string \<Rightarrow> int \<times> effect list" where
  "gen_key fopen_w key outfile =
     (if \<not> fopen_w outfile then (1, [Error_printed (Error_writing_to_file outfile)])
      else (0, [Written outfile
                 (''# watermarking key for audiowmark'' @ [newline, newline] @
                  ''key '' @ key @ [newline])]))"

text \<open>
  The class \<^verbatim>\<open>Random\<close> (\<^verbatim>\<open>random.hh\<close>, not part of the sources) is a parameter of the
  model: the generator \<^verbatim>\<open>Random (seed, Random::Stream::data_up_down)\<close>, its
  \<^verbatim>\<open>operator()\<close>, which returns a \<^verbatim>\<open>uint64_t\<close>, and \<^verbatim>\<open>random_double()\<close>, each with the
  generator's next state.
\<close>

record 'g Random =
  new_Random :: "int \<Rightarrow> 'g"
  next_value :: "'g \<Rightarrow> 64 word \<times> 'g"
  random_double :: "'g \<Rightarrow> real \<times> 'g"

definition UINT64_MAX :: "64 word" where
  "UINT64_MAX = - 1"

text \<open>\<^verbatim>\<open>test_speed\<close>: the return value and the number passed to \<^verbatim>\<open>printf\<close>.\<close>

definition test_speed :: "'g Random \<Rightarrow> int \<Rightarrow> int \<times> effect list" where
  "test_speed R seed =
     (let rng = new_Random R seed;
          low = 0.85;
          high = 1.15
      in case next_value R rng of (r, rng') \<Rightarrow>
           (0, [Printed (low + (real (unat r) / real (unat UINT64_MAX)) * (high - low))]))"

text \<open>
  The conversion of a \<^verbatim>\<open>double\<close> to \<^verbatim>\<open>size_t\<close> truncates towards zero; it is undefined
  when the truncated value is not a \<^verbatim>\<open>size_t\<close>.
\<close>

definition truncated :: "real \<Rightarrow> int" where
  "truncated x = (if 0 \<le> x then \<lfloor>x\<rfloor> else \<lceil>x\<rceil>)"

definition to_size_t :: "real \<Rightarrow> 64 word defined" where
  "to_size_t x =
     (if 0 \<le> truncated x \<and> truncated x < 2 ^ 64 then Defined (word_of_int (truncated x))
      else Undefined)"





text \<open>
  \<^verbatim>\<open>mark_sync_frame_count()\<close>, \<^verbatim>\<open>mark_data_frame_count()\<close> and \<^verbatim>\<open>Params::frame_size\<close>
  are defined in \<^verbatim>\<open>wmcommon.hh\<close>, which is not part of the sources; they are
  parameters of the model.
\<close>

record geometry =
  mark_sync_frame_count :: "64 word"
  mark_data_frame_count :: "64 word"
  frame_size :: "64 word"

definition values_per_block :: "geometry \<Rightarrow> WavData \<Rightarrow> 64 word" where
  "values_per_block G in_data =
     (mark_sync_frame_count G + mark_data_frame_count G) * frame_size G *
       word_of_int (n_channels in_data)"

text \<open>
  Whether the arithmetic of one round of the loop of \<^verbatim>\<open>test_clip\<close> is defined: the
  division by \<^verbatim>\<open>n_channels()\<close> and the product \<^verbatim>\<open>time_seconds * sample_rate()\<close> of
  two \<^verbatim>\<open>int\<close>.
\<close>

definition clip_defined :: "WavData \<Rightarrow> int \<Rightarrow> bool" where
  "clip_defined in_data time_seconds \<longleftrightarrow>
     n_channels in_data \<noteq> 0 \<and>
     - (2 ^ 31) \<le> time_seconds * sample_rate in_data \<and>
     time_seconds * sample_rate in_data < 2 ^ 31"

text \<open>
  One round of the \<^verbatim>\<open>do ... while (!done)\<close> loop of \<^verbatim>\<open>test_clip\<close>, with the value \<open>u\<close>
  that \<^verbatim>\<open>random_double()\<close> returned: \<^verbatim>\<open>start_point\<close> and \<^verbatim>\<open>end_point\<close>. The \<^verbatim>\<open>int\<close>
  operands \<^verbatim>\<open>n_channels()\<close> and \<^verbatim>\<open>time_seconds * sample_rate()\<close> are converted to
  \<^verbatim>\<open>size_t\<close>.
\<close>

definition clip_points :: "geometry \<Rightarrow> WavData \<Rightarrow> int \<Rightarrow> real \<Rightarrow> (64 word \<times> 64 word) defined" where
  "clip_points G in_data time_seconds u =
     (if \<not> clip_defined in_data time_seconds then Undefined
      else
        (case to_size_t (real (unat (2 * values_per_block G in_data)) * u) of
           Undefined \<Rightarrow> Undefined
         | Defined start \<Rightarrow>
             (let start_point = start div word_of_int (n_channels in_data);
                  end_point = start_point + word_of_int (time_seconds * sample_rate in_data)
              in Defined (start_point, end_point))))"

text \<open>
  The loop. The result \<open>None\<close> says that it runs forever; otherwise the result is
  \<^verbatim>\<open>start_point\<close> and \<^verbatim>\<open>end_point\<close> when the loop is left.
\<close>

partial_function (option) clip_loop ::
  "'g Random \<Rightarrow> geometry \<Rightarrow> WavData \<Rightarrow> int \<Rightarrow> 'g \<Rightarrow> (64 word \<times> 64 word) defined option" where
  "clip_loop R G in_data time_seconds rng =
     (case random_double R rng of (u, rng') \<Rightarrow>
        (case clip_points G in_data time_seconds u of
           Undefined \<Rightarrow> Some Undefined
         | Defined (start_point, end_point) \<Rightarrow>
             if end_point < n_values in_data div word_of_int (n_channels in_data)
             then Some (Defined (start_point, end_point))
             else clip_loop R G in_data time_seconds rng'))"

text \<open>
  \<^verbatim>\<open>test_clip\<close>: \<open>load\<close> is \<^verbatim>\<open>WavData::load\<close> (an error's message or the signal),
  \<open>save\<close> is \<^verbatim>\<open>WavData::save\<close>. Copying the range of samples is undefined when the range
  is not one of the vector.
\<close>

definition test_clip ::
  "'g Random \<Rightarrow> geometry \<Rightarrow> (string \<Rightarrow> string + WavData) \<Rightarrow>
   (WavData \<Rightarrow> string \<Rightarrow> string option) \<Rightarrow> string \<Rightarrow> string \<Rightarrow> int \<Rightarrow> int \<Rightarrow>
   (int \<times> effect list) defined option" where
  "test_clip R G load save in_file out_file seed time_seconds =
     (case load in_file of
        Inl err \<Rightarrow> Some (Defined (1, [Error_printed (Error_loading in_file err)]))
      | Inr in_data \<Rightarrow>
          (case clip_loop R G in_data time_seconds (new_Random R seed) of
             None \<Rightarrow> None
           | Some Undefined \<Rightarrow> Some Undefined
           | Some (Defined (start_point, end_point)) \<Rightarrow>
               (let first = unat (start_point * word_of_int (n_channels in_data));
                    last = unat (end_point * word_of_int (n_channels in_data))
                in if \<not> (first \<le> last \<and> last \<le> length (samples in_data)) then Some Undefined
                   else
                     (let out_signal = take (last - first) (drop first (samples in_data));
                          out_wav_data = \<lparr>samples = out_signal,
                            n_channels = n_channels in_data,
                            sample_rate = sample_rate in_data,
                            bit_depth = bit_depth in_data\<rparr>
                      in case save out_wav_data out_file of
                           Some err \<Rightarrow>
                             Some (Defined (1, [Error_printed (Error_saving out_file err)]))
                         | None \<Rightarrow> Some (Defined (0, [Saved out_file out_wav_data]))))))"

subsection \<open>Occurrences of an option in an argument list\<close>

text \<open>
  An occurrence of \<open>option\<close> at index \<open>i\<close>: the argument is the option and another
  argument follows it (\<^verbatim>\<open>--option value\<close>), or the argument begins with the option and
  \<^verbatim>\<open>=\<close> (\<^verbatim>\<open>--option=value\<close>). These definitions read the argument list only; they do
  not follow the parser.
\<close>

definition occurs_at :: "string \<Rightarrow> string list \<Rightarrow> nat \<Rightarrow> bool" where
  "occurs_at option args i \<longleftrightarrow>
     i < length args \<and>
     ((args ! i = option \<and> Suc i < length args) \<or> starts_with (args ! i) (option @ ''=''))"


definition occurrences :: "string \<Rightarrow> string list \<Rightarrow> nat list" where
  "occurrences option args = filter (occurs_at option args) [0..<length args]"

text \<open>The index is the one after an argument that is the option.\<close>

definition value_of_occurrence :: "string \<Rightarrow> string list \<Rightarrow> nat \<Rightarrow> bool" where
  "value_of_occurrence option args i \<longleftrightarrow> 0 < i \<and> i < length args \<and> args ! (i - 1) = option"


text \<open>The arguments that are neither an occurrence nor the value of one, in order.\<close>

definition without_occurrences :: "string \<Rightarrow> string list \<Rightarrow> string list" where
  "without_occurrences option args =
     map (\<lambda>i. args ! i)
       (filter (\<lambda>i. \<not> occurs_at option args i \<and> \<not> value_of_occurrence option args i)
         [0..<length args])"

text \<open>
  An option with a value is given when it has an occurrence; an option without a value
  is given when it is one of the arguments.
\<close>

definition value_given :: "string \<Rightarrow> string list \<Rightarrow> bool" where
  "value_given option args \<longleftrightarrow> occurrences option args \<noteq> []"

definition flag_given :: "string \<Rightarrow> string list \<Rightarrow> bool" where
  "flag_given option args \<longleftrightarrow> option \<in> set args"


text \<open>
  The loop of \<^verbatim>\<open>parse_opt\<close> as a recursion over the arguments that are still to be
  visited (used in the proofs only; \<open>parse_opt_loop_scan\<close> relates the two).
\<close>

fun scan :: "string \<Rightarrow> string list \<Rightarrow> bool \<Rightarrow> string \<Rightarrow> bool \<times> string \<times> string list" where
  "scan option [] found out = (found, out, [])"
| "scan option [a] found out =
     (if starts_with a (option @ ''='') then (True, drop (length option + 1) a, [])
      else (found, out, [a]))"
| "scan option (a # b # rest) found out =
     (if a = option then scan option rest True b
      else if starts_with a (option @ ''='') then
        scan option (b # rest) True (drop (length option + 1) a)
      else (case scan option (b # rest) found out of (f, out', r) \<Rightarrow> (f, out', a # r)))"

subsection \<open>Notions used to state the properties of the commands\<close>

text \<open>The text of a file that consists of the given lines.\<close>

definition unlines :: "string list \<Rightarrow> string" where
  "unlines ls = concat (map (\<lambda>l. l @ [newline]) ls)"

text \<open>The first \<open>n\<close> values that \<^verbatim>\<open>random_double()\<close> returns from the state \<open>rng\<close> on.\<close>

fun draws :: "'g Random \<Rightarrow> nat \<Rightarrow> 'g \<Rightarrow> real list" where
  "draws R 0 rng = []"
| "draws R (Suc n) rng = (case random_double R rng of (u, rng') \<Rightarrow> u # draws R n rng')"

text \<open>\<^verbatim>\<open>random_double()\<close> returns a value in \<open>[0, 1)\<close>, as its contract says.\<close>

definition unit_interval :: "'g Random \<Rightarrow> bool" where
  "unit_interval R \<longleftrightarrow> (\<forall>rng. 0 \<le> fst (random_double R rng) \<and> fst (random_double R rng) < 1)"

text \<open>The number of frames of a signal: \<^verbatim>\<open>n_values() / n_channels()\<close>.\<close>

definition n_frames :: "WavData \<Rightarrow> 64 word" where
  "n_frames w = n_values w div word_of_int (n_channels w)"

subsection \<open>Notions used to state the properties of the option parsers\<close>

text \<open>
  The arguments that \<^verbatim>\<open>parse_opt\<close> with a value leaves (they do not depend on the
  initial \<^verbatim>\<open>out_s\<close>).
\<close>

definition remaining :: "string \<Rightarrow> string list \<Rightarrow> string list" where
  "remaining option args = snd (snd (parse_opt_string option [] args))"






text \<open>
  Values for the examples: parameters that are all zero, false or empty (the initial
  values of \<^verbatim>\<open>Params\<close> are not part of the sources); the values of \<^verbatim>\<open>atoi\<close> and
  \<^verbatim>\<open>atof\<close> on decimal numbers with an optional minus sign (leading white space, a plus
  sign and exponents are left out; text that is no number gives 0); and a
  \<^verbatim>\<open>short_code_init\<close> that supports the payload sizes 12, 16 and 20.
\<close>

definition zero_RawFormat :: RawFormat where
  "zero_RawFormat = \<lparr>raw_bit_depth = 0, raw_endian = LITTLE, raw_encoding = SIGNED,
     raw_channels = 0, raw_sample_rate = 0\<rparr>"

definition zero_Params :: Params where
  "zero_Params = \<lparr>water_delta = 0, have_key = 0, key_calls = [], payload_size = 0,
     payload_short = False, frames_per_bit = 0, mix = True, input_label = [],
     output_label = [], snr = False, input_format = AUTO, output_format = AUTO,
     raw_input_format = zero_RawFormat, raw_output_format = zero_RawFormat,
     test_no_limiter = False, test_cut = 0, test_truncate = 0, hard = False,
     test_no_sync = False, detect_speed = False, detect_speed_patient = False,
     try_speed = 0, Params_test_speed = 0, json_output = [], expect_matches = 0,
     hls_bit_rate = 0, strict = False, log_level_warning = False\<rparr>"

definition is_digit :: "char \<Rightarrow> bool" where
  "is_digit c \<longleftrightarrow> 48 \<le> (of_char c :: nat) \<and> (of_char c :: nat) \<le> 57"

definition digits_value :: "string \<Rightarrow> nat" where
  "digits_value ds = foldl (\<lambda>n c. 10 * n + (of_char c - 48)) 0 ds"

definition example_atoi :: "string \<Rightarrow> int" where
  "example_atoi s =
     (case s of
        [] \<Rightarrow> 0
      | c # r \<Rightarrow>
          if c = CHR ''-'' then - int (digits_value (takeWhile is_digit r))
          else int (digits_value (takeWhile is_digit s)))"

definition example_atof :: "string \<Rightarrow> real" where
  "example_atof s =
     (let negative = (s \<noteq> [] \<and> hd s = CHR ''-'');
          r = (if negative then tl s else s);
          whole = takeWhile is_digit r;
          rest = dropWhile is_digit r;
          fraction = (if rest \<noteq> [] \<and> hd rest = CHR ''.'' then takeWhile is_digit (tl rest)
                      else []);
          v = real (digits_value whole) + real (digits_value fraction) / 10 ^ length fraction
      in if negative then - v else v)"

definition example_externals :: externals where
  "example_externals = \<lparr>atoi = example_atoi, atof = example_atof,
     short_code_init = \<lambda>n. n = 12 \<or> n = 16 \<or> n = 20\<rparr>"

text \<open>The options that \<^verbatim>\<open>main\<close> looks for before the command.\<close>

definition global_flags :: "string list" where
  "global_flags =
     [''--help'', ''-h'', ''--help-hls'', ''--version'', ''-v'', ''--quiet'', ''-q'', ''--strict'']"

section \<open>The embedder, modelled from the specification\<close>

text \<open>
  Modelled from the spec: the operation \<^verbatim>\<open>embed (signal, message, key, strength)\<close> of
  the Embedder (the function \<^verbatim>\<open>add_watermark\<close> that \<^verbatim>\<open>main\<close> calls is not part of the
  sources). The definitions follow sections 3, 4.2, 4.3 and 7 of the specification:
  a frame is a window of \<open>frame_size\<close> consecutive samples, a block is
  \<open>sync_frame_count\<close> sync frames followed by \<open>data_frame_count\<close> data frames, each
  payload bit is spread over \<open>frames_per_bit\<close> data frames; for each frame the
  embedder draws the frame's pattern from the keyed stream (\<open>Sync\<close> for a sync frame,
  \<open>Data_up_down\<close> for a data frame) and adds a signed perturbation proportional to the
  strength and to a per-frame loudness reference, the sign alternating with the
  pattern and, in a data frame, with the payload bit; a limiter then clamps every
  sample to the valid range; a signal shorter than one block and a payload whose width
  does not fit the block are refused. The keyed pattern and the loudness reference are
  not specified further and are parameters. The transform to the frequency domain is
  left out: the perturbation is added to the samples of the frame.
\<close>

datatype stream = Sync | Data_up_down | Padding

datatype embed_error = InputTooShort | GeometryMismatch

record FrameCodec =
  codec_frame_size :: nat
  codec_sync_frame_count :: nat
  codec_data_frame_count :: nat
  codec_frames_per_bit :: nat

record 'k KeyedRandom =
  pattern :: "'k \<Rightarrow> stream \<Rightarrow> nat \<Rightarrow> nat \<Rightarrow> bool"
  loudness :: "real list \<Rightarrow> real"

definition block_frames :: "FrameCodec \<Rightarrow> nat" where
  "block_frames c = codec_sync_frame_count c + codec_data_frame_count c"

text \<open>The frames of a signal: windows of \<open>n\<close> values, the last one with what is left.\<close>

function frames :: "nat \<Rightarrow> 'a list \<Rightarrow> 'a list list" where
  "frames n xs =
     (if xs = [] then []
      else if n = 0 then [xs]
      else take n xs # frames n (drop n xs))"
  by pat_completeness auto
termination
  by (relation "measure (\<lambda>(n, xs). length xs)") auto

declare frames.simps [simp del]

text \<open>The role of the frame with index \<open>k\<close> and, for a data frame, its payload bit.\<close>

definition frame_stream :: "FrameCodec \<Rightarrow> nat \<Rightarrow> stream" where
  "frame_stream c k =
     (if k mod block_frames c < codec_sync_frame_count c then Sync else Data_up_down)"

definition frame_bit :: "FrameCodec \<Rightarrow> bool list \<Rightarrow> nat \<Rightarrow> bool" where
  "frame_bit c message k =
     (frame_stream c k = Sync \<or>
      message ! ((k mod block_frames c - codec_sync_frame_count c) div codec_frames_per_bit c))"

definition modulate_frame ::
  "FrameCodec \<Rightarrow> 'k KeyedRandom \<Rightarrow> 'k \<Rightarrow> real \<Rightarrow> bool list \<Rightarrow> nat \<times> real list \<Rightarrow> real list" where
  "modulate_frame c K key strength message = (\<lambda>(k, frame).
     map (\<lambda>(j, x).
            x + strength * loudness K frame *
              (if pattern K key (frame_stream c k) k j = frame_bit c message k then 1 else - 1))
       (zip [0..<length frame] frame))"

definition limiter :: "real \<Rightarrow> real" where
  "limiter x = max (- 1) (min 1 x)"

definition embed ::
  "FrameCodec \<Rightarrow> 'k KeyedRandom \<Rightarrow> WavData \<Rightarrow> bool list \<Rightarrow> 'k \<Rightarrow> real \<Rightarrow> embed_error + WavData" where
  "embed c K signal message key strength =
     (let window = codec_frame_size c * nat (n_channels signal) in
      if length (samples signal) < block_frames c * window then Inl InputTooShort
      else if length message * codec_frames_per_bit c \<noteq> codec_data_frame_count c
      then Inl GeometryMismatch
      else
        (let fs = frames window (samples signal);
             modulated = concat (map (modulate_frame c K key strength message)
               (zip [0..<length fs] fs))
         in Inr (signal\<lparr>samples := map limiter modulated\<rparr>)))"

section \<open>Properties of the argument parser\<close>

lemma scan_Cons_other:
  "a \<noteq> option \<Longrightarrow> \<not> starts_with a (option @ ''='') \<Longrightarrow>
   scan option (a # xs) found out =
     (case scan option xs found out of (f, out', r) \<Rightarrow> (f, out', a # r))"
  by (cases xs) auto

lemma scan_Cons_eq:
  "starts_with a (option @ ''='') \<Longrightarrow>
   scan option (a # xs) found out = scan option xs True (drop (length option + 1) a)"
  by (cases xs) (auto simp: starts_with_def)

lemma not_starts_with_self: "\<not> starts_with option (option @ ''='')"
  by (simp add: starts_with_def)

lemma parse_opt_loop_scan:
  "it \<le> length m_args \<Longrightarrow>
   parse_opt_loop option m_args it found out =
     (case scan option (drop it m_args) found out of
        (f, out', r) \<Rightarrow> (f, out', take it m_args @ r))"
proof (induction option m_args it found out rule: parse_opt_loop.induct)
  case (1 option m_args it found out)
  show ?case
  proof (cases "it < length m_args")
    case False
    with "1.prems" show ?thesis
      by (subst parse_opt_loop.simps) simp
  next
    case lt: True
    then obtain a xs where d: "drop it m_args = a # xs" and a: "a = m_args ! it"
      and xs: "xs = drop (Suc it) m_args"
      by (metis Cons_nth_drop_Suc)
    show ?thesis
    proof (cases "m_args ! it = option \<and> Suc it < length m_args")
      case True
      then obtain b ys where xs': "xs = b # ys" and b: "b = m_args ! Suc it"
        and ys: "ys = drop (it + 2) m_args"
        using xs by (metis Cons_nth_drop_Suc Suc_eq_plus1 add_Suc_right one_add_one)
      have len: "it \<le> length (erase2 m_args it)"
        using lt by (simp add: erase2_def)
      have dr: "drop it (erase2 m_args it) = ys" and tk: "take it (erase2 m_args it) = take it m_args"
        using lt by (simp_all add: erase2_def ys)
      from "1.IH"(1) [OF lt True len] True lt show ?thesis
        by (subst parse_opt_loop.simps) (simp add: d xs' a b dr tk)
    next
      case nb: False
      show ?thesis
      proof (cases "starts_with (m_args ! it) (option @ ''='')")
        case True
        have len: "it \<le> length (erase m_args it)"
          using lt by (simp add: erase_def)
        have dr: "drop it (erase m_args it) = xs" and tk: "take it (erase m_args it) = take it m_args"
          using lt by (simp_all add: erase_def xs)
        have neq: "m_args ! it \<noteq> option"
          using True not_starts_with_self by auto
        from "1.IH"(2) [OF lt nb True len] True neq lt show ?thesis
          by (subst parse_opt_loop.simps) (simp add: d a [symmetric] scan_Cons_eq dr tk)
      next
        case False
        have ne: "a \<noteq> option \<or> xs = []"
          using nb a xs lt by (auto simp: Suc_le_eq not_less)
        have sc: "scan option (a # xs) found out =
            (case scan option xs found out of (f, out', r) \<Rightarrow> (f, out', a # r))"
        proof (cases "a = option")
          case True
          with ne have "xs = []" by simp
          with False a show ?thesis by simp
        next
          case False
          with \<open>\<not> starts_with (m_args ! it) (option @ ''='')\<close> a show ?thesis
            by (simp add: scan_Cons_other)
        qed
        have tk: "take (Suc it) m_args = take it m_args @ [a]"
          using lt a by (simp add: take_Suc_conv_app_nth)
        have step: "parse_opt_loop option m_args it found out =
            parse_opt_loop option m_args (Suc it) found out"
          using lt nb False by (subst parse_opt_loop.simps) auto
        from "1.IH"(3) [OF lt nb False] lt show ?thesis
          by (simp add: step d sc xs [symmetric] tk split: prod.splits)
      qed
    qed
  qed
qed

lemma parse_opt_string_scan: "parse_opt_string option out_s m_args = scan option m_args False out_s"
  by (simp add: parse_opt_string_def parse_opt_loop_scan split: prod.splits)

lemma occurs_at_Nil [simp]: "\<not> occurs_at option [] i"
  by (simp add: occurs_at_def)

lemma occurs_at_Cons_0:
  "occurs_at option (a # xs) 0 \<longleftrightarrow> (a = option \<and> xs \<noteq> []) \<or> starts_with a (option @ ''='')"
  by (auto simp: occurs_at_def)

lemma occurs_at_Cons_Suc [simp]:
  "occurs_at option (a # xs) (Suc i) \<longleftrightarrow> occurs_at option xs i"
  by (simp add: occurs_at_def)

lemma ex_occurs_at_Cons:
  "(\<exists>i. occurs_at option (a # xs) i) \<longleftrightarrow>
     occurs_at option (a # xs) 0 \<or> (\<exists>i. occurs_at option xs i)"
  by (metis occurs_at_Cons_Suc not0_implies_Suc)

lemma scan_found_True: "fst (scan option xs True out)"
  by (induction option xs True out rule: scan.induct) (auto split: prod.splits)

lemma scan_found_True': "scan option xs True out = (f, r) \<Longrightarrow> f"
  by (metis fst_conv scan_found_True)

lemma scan_found:
  "fst (scan option xs found out) \<longleftrightarrow> found \<or> (\<exists>i. occurs_at option xs i)"
proof (induction option xs found out rule: scan.induct)
  case (1 option found out)
  then show ?case by simp
next
  case (2 option a found out)
  then show ?case by (auto simp: ex_occurs_at_Cons occurs_at_Cons_0)
next
  case (3 option a b rest found out)
  then show ?case
    by (auto simp: ex_occurs_at_Cons [of option a] occurs_at_Cons_0 scan_found_True
        split: prod.splits dest: scan_found_True')
qed



lemma occurrences_Nil [simp]: "occurrences option [] = []"
  by (simp add: occurrences_def)



lemma occurs_at_less: "occurs_at option xs i \<Longrightarrow> i < length xs"
  by (simp add: occurs_at_def)

lemma set_occurrences: "set (occurrences option xs) = {i. occurs_at option xs i}"
  using occurs_at_less by (fastforce simp: occurrences_def)


lemma occurrences_empty_iff: "occurrences option xs = [] \<longleftrightarrow> (\<forall>i. \<not> occurs_at option xs i)"
  using set_occurrences [of option xs] by (metis empty_Collect_eq set_empty)




lemma value_of_occurrence_0 [simp]: "\<not> value_of_occurrence option xs 0"
  by (simp add: value_of_occurrence_def)







lemma without_occurrences_Nil [simp]: "without_occurrences option [] = []"
  by (simp add: without_occurrences_def)





lemma case_cons_rest:
  "snd (snd (case p of (f, out', r) \<Rightarrow> (f, out', a # r))) = a # snd (snd p)"
  by (cases p) simp


section \<open>Properties of the commands\<close>

lemma unat_UINT64_MAX: "unat UINT64_MAX = 2 ^ 64 - 1"
  unfolding UINT64_MAX_def by (simp add: unsigned_minus_1_eq_mask mask_eq_exp_minus_1)

lemma unit_fraction: "a \<le> b \<Longrightarrow> 0 < b \<Longrightarrow> 0 \<le> real a / real b \<and> real a / real b \<le> 1"
  by simp

lemma length_draws [simp]: "length (draws R n rng) = n"
  by (induction n arbitrary: rng) (auto split: prod.splits)




lemma unat_word_of_int_small:
  assumes "0 \<le> k" and "k < 2 ^ 64"
  shows "unat (word_of_int k :: 64 word) = nat k"
proof -
  have "word_of_int k = (word_of_nat (nat k) :: 64 word)"
    using assms(1) by (rule word_of_int_nat)
  moreover have "nat k < 2 ^ LENGTH(64)"
    using assms by (simp add: nat_less_iff)
  ultimately show ?thesis
    by (simp only: unat_of_nat mod_less)
qed






lemma clip_points_end:
  "clip_points G in_data t u = Defined (s, e) \<Longrightarrow>
   e = s + word_of_int (t * sample_rate in_data)"
  by (auto simp: clip_points_def Let_def split: if_splits defined.splits)

lemma clip_loop_exit:
  assumes "clip_loop R G in_data t rng = Some r"
  shows "r = Undefined \<or>
    (\<exists>s e u. r = Defined (s, e) \<and> clip_points G in_data t u = Defined (s, e) \<and>
       e < n_frames in_data)"
  using assms
proof (induction rule: clip_loop.raw_induct [rotated 1, consumes 1])
  case (1 clip_loop R G in_data t rng r)
  obtain u rng' where rd: "random_double R rng = (u, rng')"
    by (cases "random_double R rng") auto
  show ?case
  proof (cases "clip_points G in_data t u")
    case Undefined
    with 1(2) rd show ?thesis by simp
  next
    case (Defined p)
    obtain s e where p: "p = (s, e)" by (cases p) auto
    show ?thesis
    proof (cases "e < n_values in_data div word_of_int (n_channels in_data)")
      case True
      with 1(2) rd Defined p have "r = Defined (s, e)" by simp
      with True Defined p show ?thesis
        by (auto simp: n_frames_def)
    next
      case False
      with 1(2) rd Defined p have "clip_loop R G in_data t rng' = Some r" by simp
      then show ?thesis by (rule 1(1))
    qed
  qed
qed


lemma to_size_t_scaled:
  assumes "0 \<le> u" and "u < 1" and "n < 2 ^ 64"
  shows "\<exists>start. to_size_t (real n * u) = Defined start \<and> unat start \<le> n"
proof -
  let ?x = "real n * u"
  have x0: "0 \<le> ?x"
    using assms(1) by simp
  have "?x \<le> real n * 1"
    using assms(2) by (intro mult_left_mono) simp_all
  then have xv: "?x \<le> real n"
    by simp
  have f0: "0 \<le> \<lfloor>?x\<rfloor>"
    using x0 by simp
  have "\<lfloor>?x\<rfloor> \<le> \<lfloor>real n\<rfloor>"
    using xv by (rule floor_mono)
  then have fv: "\<lfloor>?x\<rfloor> \<le> int n"
    by simp
  have "int n < 2 ^ 64"
    using assms(3) by (metis of_nat_less_iff of_nat_numeral of_nat_power)
  with fv have f64: "\<lfloor>?x\<rfloor> < 2 ^ 64"
    by linarith
  have ts: "to_size_t ?x = Defined (word_of_int \<lfloor>?x\<rfloor>)"
    using x0 f0 f64 by (simp add: to_size_t_def truncated_def)
  have "unat (word_of_int \<lfloor>?x\<rfloor> :: 64 word) = nat \<lfloor>?x\<rfloor>"
    using f0 f64 by (rule unat_word_of_int_small)
  also have "\<dots> \<le> n"
    using fv by linarith
  finally show ?thesis
    using ts by blast
qed

lemma clip_points_no_exit:
  assumes "0 \<le> u" and "u < 1"
    and cd: "clip_defined in_data t"
    and nw: "unat (2 * values_per_block G in_data) + nat (t * sample_rate in_data) < 2 ^ 64"
    and short: "uint (n_frames in_data) \<le> t * sample_rate in_data"
  shows "\<exists>s e. clip_points G in_data t u = Defined (s, e) \<and> \<not> e < n_frames in_data"
proof -
  let ?T = "t * sample_rate in_data"
  let ?c = "word_of_int (n_channels in_data) :: 64 word"
  obtain start where st: "to_size_t (real (unat (2 * values_per_block G in_data)) * u) = Defined start"
    and sv: "unat start \<le> unat (2 * values_per_block G in_data)"
  proof -
    have "unat (2 * values_per_block G in_data) < 2 ^ 64"
      using unsigned_less [of "2 * values_per_block G in_data"] by simp
    from to_size_t_scaled [OF assms(1,2) this] that show thesis
      by blast
  qed
  define s where "s = start div ?c"
  define e where "e = s + word_of_int ?T"
  have cp: "clip_points G in_data t u = Defined (s, e)"
    using cd st by (simp add: clip_points_def s_def e_def Let_def)
  have "unat s = unat start div unat ?c"
    unfolding s_def by (rule unat_div)
  then have ss: "unat s \<le> unat start"
    by simp
  have T0: "0 \<le> ?T"
    using short uint_ge_0 [of "n_frames in_data"] by linarith
  have "?T < 2 ^ 31"
    using cd by (simp add: clip_defined_def)
  moreover have "(2 :: int) ^ 31 < 2 ^ 64"
    by simp
  ultimately have T64: "?T < 2 ^ 64"
    by (rule less_trans)
  have uT: "unat (word_of_int ?T :: 64 word) = nat ?T"
    using T0 T64 by (rule unat_word_of_int_small)
  have "unat s + unat (word_of_int ?T :: 64 word) < 2 ^ LENGTH(64)"
    using ss sv nw uT by simp
  then have "unat e = unat s + unat (word_of_int ?T :: 64 word)"
    unfolding e_def by (simp only: unat_add_lem [THEN iffD1])
  then have ue: "nat ?T \<le> unat e"
    using uT by simp
  have "unat (n_frames in_data) = nat (uint (n_frames in_data))"
    by simp
  also have "\<dots> \<le> nat ?T"
    using short by (rule nat_mono)
  finally have "unat (n_frames in_data) \<le> unat e"
    using ue by simp
  then have "\<not> e < n_frames in_data"
    by (simp add: word_less_nat_alt)
  with cp show ?thesis by blast
qed

lemma clip_loop_never_returns:
  assumes ui: "unit_interval R"
    and cd: "clip_defined in_data t"
    and nw: "unat (2 * values_per_block G in_data) + nat (t * sample_rate in_data) < 2 ^ 64"
    and short: "uint (n_frames in_data) \<le> t * sample_rate in_data"
  shows "clip_loop R G in_data t rng = None"
proof (rule ccontr)
  assume "clip_loop R G in_data t rng \<noteq> None"
  then obtain r where "clip_loop R G in_data t rng = Some r"
    by blast
  from this ui cd nw short show False
  proof (induction rule: clip_loop.raw_induct [rotated 1, consumes 1])
    case (1 clip_loop R G in_data t rng r)
    obtain u rng' where rd: "random_double R rng = (u, rng')"
      by (cases "random_double R rng") auto
    from 1(3) have "0 \<le> fst (random_double R rng) \<and> fst (random_double R rng) < 1"
      unfolding unit_interval_def by blast
    with rd have u: "0 \<le> u" "u < 1"
      by simp_all
    from clip_points_no_exit [OF u 1(4,5,6)]
    obtain s e where cp: "clip_points G in_data t u = Defined (s, e)"
      and ne: "\<not> e < n_frames in_data"
      by blast
    from 1(2) rd cp ne have "clip_loop R G in_data t rng' = Some r"
      by (simp add: n_frames_def)
    from 1(1) [OF this 1(3,4,5,6)] show ?case .
  qed
qed

section \<open>Properties of the option parsers\<close>

subsection \<open>The parsers in terms of the argument list\<close>

lemma parse_opt_flag_loop_remove1:
  "it \<le> length m_args \<Longrightarrow> option \<notin> set (take it m_args) \<Longrightarrow>
   parse_opt_flag_loop option m_args it = (option \<in> set m_args, remove1 option m_args)"
proof (induction option m_args it rule: parse_opt_flag_loop.induct)
  case (1 option m_args it)
  show ?case
  proof (cases "it < length m_args")
    case False
    with "1.prems" have "take it m_args = m_args" by simp
    with "1.prems" have "option \<notin> set m_args" by simp
    with False show ?thesis
      by (subst parse_opt_flag_loop.simps) (simp add: remove1_idem)
  next
    case lt: True
    have split: "m_args = take it m_args @ m_args ! it # drop (Suc it) m_args"
      using lt by (simp add: id_take_nth_drop [symmetric])
    show ?thesis
    proof (cases "m_args ! it = option")
      case True
      have "remove1 option m_args =
          remove1 option (take it m_args @ m_args ! it # drop (Suc it) m_args)"
        using split by simp
      also have "\<dots> = take it m_args @ drop (Suc it) m_args"
        using "1.prems"(2) True by (simp add: remove1_append)
      finally have r: "remove1 option m_args = erase m_args it"
        by (simp add: erase_def)
      have "option \<in> set m_args"
        using True lt nth_mem by fastforce
      with True lt r show ?thesis
        by (subst parse_opt_flag_loop.simps) simp
    next
      case False
      have "take (Suc it) m_args = take it m_args @ [m_args ! it]"
        using lt by (simp add: take_Suc_conv_app_nth)
      with False "1.prems"(2) have n: "option \<notin> set (take (Suc it) m_args)"
        by simp
      from lt have le: "Suc it \<le> length m_args" by simp
      from "1.IH" [OF lt False le n] lt False show ?thesis
        by (subst parse_opt_flag_loop.simps) simp
    qed
  qed
qed

lemma parse_opt_flag_eq: "parse_opt_flag option args = (flag_given option args, remove1 option args)"
  by (simp add: parse_opt_flag_def parse_opt_flag_loop_remove1 flag_given_def)

lemma scan_rest_independent:
  "snd (snd (scan option xs found out)) = snd (snd (scan option xs found' out'))"
proof (induction option xs found out arbitrary: found' out' rule: scan.induct)
  case (1 option found out)
  then show ?case by simp
next
  case (2 option a found out)
  then show ?case by simp
next
  case (3 option a b rest found out)
  show ?case
  proof (cases "a = option")
    case True
    with "3.IH"(1) [of True b] show ?thesis by simp
  next
    case False
    show ?thesis
    proof (cases "starts_with a (option @ ''='')")
      case True
      with False "3.IH"(2) [of True "drop (length option + 1) a"] show ?thesis by simp
    next
      case nsw: False
      with False "3.IH"(3) [of found' out'] show ?thesis
        by (simp add: case_cons_rest)
    qed
  qed
qed

lemma parse_opt_string_found [simp]:
  "fst (parse_opt_string option out_s args) = value_given option args"
  by (simp add: parse_opt_string_scan scan_found value_given_def occurrences_empty_iff)

lemma parse_opt_string_rest [simp]:
  "snd (snd (parse_opt_string option out_s args)) = remaining option args"
  unfolding remaining_def parse_opt_string_scan by (rule scan_rest_independent)

lemma parse_opt_int_found [simp]:
  "fst (parse_opt_int ext option out_i args) = value_given option args"
  using parse_opt_string_found [of option "[]" args]
  by (cases "parse_opt_string option [] args") (simp add: parse_opt_int_def)

lemma parse_opt_int_rest [simp]:
  "snd (snd (parse_opt_int ext option out_i args)) = remaining option args"
  using parse_opt_string_rest [of option "[]" args]
  by (cases "parse_opt_string option [] args") (simp add: parse_opt_int_def)

lemma parse_opt_float_found [simp]:
  "fst (parse_opt_float ext option out_f args) = value_given option args"
  using parse_opt_string_found [of option "[]" args]
  by (cases "parse_opt_string option [] args") (simp add: parse_opt_float_def)

lemma parse_opt_float_rest [simp]:
  "snd (snd (parse_opt_float ext option out_f args)) = remaining option args"
  using parse_opt_string_rest [of option "[]" args]
  by (cases "parse_opt_string option [] args") (simp add: parse_opt_float_def)

lemma parse_opt_flag_found [simp]: "fst (parse_opt_flag option args) = flag_given option args"
  by (simp add: parse_opt_flag_eq)

lemma parse_opt_flag_rest [simp]: "snd (parse_opt_flag option args) = remove1 option args"
  by (simp add: parse_opt_flag_eq)


subsection \<open>Options that are not taken for values\<close>

lemma remaining_scan: "remaining option xs = snd (snd (scan option xs found out))"
  unfolding remaining_def parse_opt_string_scan by (rule scan_rest_independent)

lemma remaining_Nil [simp]: "remaining option [] = []"
  by (simp add: remaining_scan [of _ _ False "[]"])

lemma remaining_bare [simp]: "remaining option (option # b # rest) = remaining option rest"
  by (simp add: remaining_scan [of _ "option # b # rest" False "[]"]
      remaining_scan [of _ rest True b])

lemma remaining_eq [simp]:
  "starts_with a (option @ ''='') \<Longrightarrow> remaining option (a # xs) = remaining option xs"
  by (simp add: remaining_scan [of _ "a # xs" False "[]"] scan_Cons_eq
      remaining_scan [of _ xs True "drop (length option + 1) a"])

lemma remaining_other [simp]:
  "a \<noteq> option \<Longrightarrow> \<not> starts_with a (option @ ''='') \<Longrightarrow>
   remaining option (a # xs) = a # remaining option xs"
  by (simp add: remaining_scan [of _ _ False "[]"] scan_Cons_other case_cons_rest)

lemma remaining_last [simp]: "remaining option [option] = [option]"
  by (simp add: remaining_scan [of _ _ False "[]"] not_starts_with_self)









lemma value_given_iff: "value_given option xs \<longleftrightarrow> (\<exists>i. occurs_at option xs i)"
  by (simp add: value_given_def occurrences_empty_iff)

lemma value_given_Nil [simp]: "\<not> value_given option []"
  by (simp add: value_given_iff)

lemma value_given_Cons:
  "value_given option (a # xs) \<longleftrightarrow>
     (a = option \<and> xs \<noteq> []) \<or> starts_with a (option @ ''='') \<or> value_given option xs"
  by (simp add: value_given_iff ex_occurs_at_Cons occurs_at_Cons_0 disj_assoc)








lemma flag_given_remove1 [simp]:
  "flag' \<noteq> flag \<Longrightarrow> flag_given flag' (remove1 flag xs) \<longleftrightarrow> flag_given flag' xs"
  by (simp add: flag_given_def)




lemma parse_opt_string_value:
  "fst (snd (parse_opt_string option out_s args)) = fst (snd (scan option args False out_s))"
  by (simp add: parse_opt_string_scan)

lemmas evaluate =
  case_prod_beta Let_def parse_opt_int_def parse_opt_float_def parse_opt_string_value
  value_given_Cons flag_given_def starts_with_def and_then_def finish_def

subsection \<open>The speed options\<close>








subsection \<open>The key options\<close>







lemmas examples =
  zero_Params_def zero_RawFormat_def example_externals_def example_atoi_def example_atof_def
  digits_value_def is_digit_def parse_opt_flag_eq

section \<open>Claim C2: more than one key\<close>




section \<open>Claim C3: the embedder keeps the format of the signal\<close>

lemma concat_frames: "concat (frames n xs) = xs"
proof (induction n xs rule: frames.induct)
  case (1 n xs)
  show ?case
  proof (cases "xs = [] \<or> n = 0")
    case True
    then show ?thesis by (subst frames.simps) auto
  next
    case False
    with 1 have "concat (frames n (drop n xs)) = drop n xs" by simp
    with False show ?thesis by (subst frames.simps) simp
  qed
qed

lemma length_modulate_frame [simp]:
  "length (modulate_frame c K key strength message (k, frame)) = length frame"
  by (simp add: modulate_frame_def)

lemma length_concat_modulated:
  "length ks = length fs \<Longrightarrow>
   length (concat (map (modulate_frame c K key strength message) (zip ks fs))) =
     length (concat fs)"
proof (induction fs arbitrary: ks)
  case Nil
  then show ?case by simp
next
  case (Cons f fs)
  then obtain k ks' where "ks = k # ks'" and "length ks' = length fs"
    by (cases ks) auto
  with Cons.IH [of ks'] show ?case by simp
qed

text \<open>
  Claim C3, for the embedder as the specification describes it. Whenever \<^verbatim>\<open>embed\<close>
  accepts its input, the watermarked signal has as many samples as the input signal,
  and the same number of channels, sample rate and bit depth.
\<close>

theorem embed_preserves_format:
  assumes "embed c K signal message key strength = Inr watermarked"
  shows "length (samples watermarked) = length (samples signal) \<and>
    n_channels watermarked = n_channels signal \<and>
    sample_rate watermarked = sample_rate signal \<and>
    bit_depth watermarked = bit_depth signal"
proof -
  let ?fs = "frames (codec_frame_size c * nat (n_channels signal)) (samples signal)"
  from assms have w: "watermarked = signal\<lparr>samples := map limiter
      (concat (map (modulate_frame c K key strength message) (zip [0..<length ?fs] ?fs)))\<rparr>"
    by (simp add: embed_def Let_def split: if_splits)
  have "length (concat (map (modulate_frame c K key strength message) (zip [0..<length ?fs] ?fs))) =
      length (concat ?fs)"
    by (rule length_concat_modulated) simp
  then show ?thesis
    by (simp add: w concat_frames)
qed

text \<open>
  The theorem for a signal of two samples with frames of one sample, one sync frame and
  one data frame in a block, and a payload of one bit.
\<close>

theorem embed_preserves_format_witness:
  "embed \<lparr>codec_frame_size = 1, codec_sync_frame_count = 1, codec_data_frame_count = 1,
      codec_frames_per_bit = 1\<rparr>
     \<lparr>pattern = \<lambda>key s k j. True, loudness = \<lambda>frame. 1\<rparr>
     \<lparr>samples = [0, 1 / 2], n_channels = 1, sample_rate = 44100, bit_depth = 16\<rparr>
     [False] () (1 / 4) =
     Inr \<lparr>samples = [1 / 4, 1 / 4], n_channels = 1, sample_rate = 44100, bit_depth = 16\<rparr> \<and>
   length (samples \<lparr>samples = [1 / 4, 1 / 4 :: real], n_channels = 1, sample_rate = 44100,
     bit_depth = 16\<rparr>) =
   length (samples \<lparr>samples = [0, 1 / 2 :: real], n_channels = 1, sample_rate = 44100,
     bit_depth = 16\<rparr>)"
proof -
  let ?c = "\<lparr>codec_frame_size = 1, codec_sync_frame_count = 1, codec_data_frame_count = 1,
      codec_frames_per_bit = 1\<rparr>"
  let ?K = "\<lparr>pattern = \<lambda>key s k j. True, loudness = \<lambda>frame. 1\<rparr> :: unit KeyedRandom"
  let ?s = "\<lparr>samples = [0, 1 / 2], n_channels = 1, sample_rate = 44100, bit_depth = 16\<rparr>"
  let ?w = "\<lparr>samples = [1 / 4, 1 / 4], n_channels = 1, sample_rate = 44100, bit_depth = 16\<rparr>"
  have f: "frames (Suc 0) [0, 1 / 2 :: real] = [[0], [1 / 2]]"
    by (simp add: frames.simps)
  have e: "embed ?c ?K ?s [False] () (1 / 4) = Inr ?w"
    by (simp add: embed_def block_frames_def f modulate_frame_def frame_stream_def
        frame_bit_def limiter_def upt_rec)
  from embed_preserves_format [OF e] e show ?thesis
    by simp
qed

section \<open>Claim C5: gen_key\<close>

text \<open>
  Claim C5. When the output file can be opened for writing, \<^verbatim>\<open>gen_key\<close> writes three
  lines to it, the comment \<^verbatim>\<open># watermarking key for audiowmark\<close>, an empty line and
  \<^verbatim>\<open>key K\<close>, where \<open>K\<close> is the key that \<^verbatim>\<open>Random::gen_key()\<close> returned, and returns 0.
  When the file cannot be opened, it prints the error, returns 1 and writes nothing.
\<close>

theorem gen_key_writes_key_file:
  "gen_key fopen_w key outfile =
     (if fopen_w outfile
      then (0, [Written outfile (unlines [''# watermarking key for audiowmark'', [], ''key '' @ key])])
      else (1, [Error_printed (Error_writing_to_file outfile)]))"
  by (simp add: gen_key_def unlines_def)

section \<open>Claim C6: test_gen_noise\<close>




section \<open>Claim C7: test_speed\<close>

text \<open>
  Claim C7. For every seed (and every generator), \<^verbatim>\<open>test_speed\<close> returns 0 and prints
  \<open>0.85 + u * (1.15 - 0.85)\<close> for some \<open>u\<close> with \<open>0 \<le> u \<le> 1\<close>, a number between 0.85
  and 1.15.
\<close>

theorem test_speed_in_range:
  "\<exists>u. 0 \<le> u \<and> u \<le> 1 \<and>
     test_speed R seed = (0, [Printed (0.85 + u * (1.15 - 0.85))]) \<and>
     0.85 \<le> 0.85 + u * (1.15 - 0.85) \<and> 0.85 + u * (1.15 - 0.85) \<le> 1.15"
proof -
  obtain r rng' where n: "next_value R (new_Random R seed) = (r, rng')"
    by (cases "next_value R (new_Random R seed)") auto
  define u where "u = real (unat r) / real (unat UINT64_MAX)"
  have "unat r < 2 ^ 64"
    using unsigned_less [of r] by simp
  then have "unat r \<le> unat UINT64_MAX"
    by (simp add: unat_UINT64_MAX)
  moreover have "0 < unat UINT64_MAX"
    by (simp add: unat_UINT64_MAX)
  ultimately have "0 \<le> real (unat r) / real (unat UINT64_MAX) \<and>
      real (unat r) / real (unat UINT64_MAX) \<le> 1"
    by (rule unit_fraction)
  then have u: "0 \<le> u" "u \<le> 1"
    unfolding u_def by blast+
  have t: "test_speed R seed = (0, [Printed (0.85 + u * (1.15 - 0.85))])"
    by (simp add: test_speed_def n u_def Let_def)
  from u have "0 \<le> u * (1.15 - 0.85)" "u * (1.15 - 0.85) \<le> 1 * (1.15 - 0.85)"
    by (simp_all add: mult_right_mono)
  then have "0.85 \<le> 0.85 + u * (1.15 - 0.85)" "0.85 + u * (1.15 - 0.85) \<le> 1.15"
    by simp_all
  with u t show ?thesis by blast
qed

section \<open>Claim C8: the speed options of get and cmp\<close>




section \<open>Claim C9: the loop of test_clip\<close>

text \<open>
  Claim C9. When the loop of \<^verbatim>\<open>test_clip\<close> is left, \<^verbatim>\<open>end_point\<close> is
  \<^verbatim>\<open>start_point + time_seconds * sample_rate\<close> and is less than the number of frames
  of the input. When the number of frames is at most \<^verbatim>\<open>time_seconds * sample_rate\<close>,
  the loop runs forever and \<^verbatim>\<open>test_clip\<close> does not return once the input is loaded.
  This is for defined arithmetic (\<open>clip_defined\<close>), values of \<^verbatim>\<open>random_double()\<close> in
  \<open>[0, 1)\<close>, and a block size for which \<^verbatim>\<open>start_point + time_seconds * sample_rate\<close>
  does not wrap around in 64 bits.
\<close>

theorem test_clip_loop_exit:
  "(clip_loop R G in_data t rng = Some (Defined (s, e)) \<longrightarrow>
      e = s + word_of_int (t * sample_rate in_data) \<and> e < n_frames in_data) \<and>
   (unit_interval R \<and> clip_defined in_data t \<and>
    unat (2 * values_per_block G in_data) + nat (t * sample_rate in_data) < 2 ^ 64 \<and>
    uint (n_frames in_data) \<le> t * sample_rate in_data \<longrightarrow>
      clip_loop R G in_data t rng = None \<and>
      (load in_file = Inr in_data \<longrightarrow>
         test_clip R G load save in_file out_file seed t = None))"
proof (intro conjI impI)
  assume "clip_loop R G in_data t rng = Some (Defined (s, e))"
  from clip_loop_exit [OF this]
  obtain u where cp: "clip_points G in_data t u = Defined (s, e)" and lt: "e < n_frames in_data"
    by auto
  from cp show "e = s + word_of_int (t * sample_rate in_data)"
    by (rule clip_points_end)
  from lt show "e < n_frames in_data" .
next
  assume a: "unit_interval R \<and> clip_defined in_data t \<and>
    unat (2 * values_per_block G in_data) + nat (t * sample_rate in_data) < 2 ^ 64 \<and>
    uint (n_frames in_data) \<le> t * sample_rate in_data"
  then show "clip_loop R G in_data t rng = None"
    by (intro clip_loop_never_returns) simp_all
  assume "load in_file = Inr in_data"
  moreover from a have "clip_loop R G in_data t (new_Random R seed) = None"
    by (intro clip_loop_never_returns) simp_all
  ultimately show "test_clip R G load save in_file out_file seed t = None"
    by (simp add: test_clip_def)
qed

text \<open>
  The theorem with a generator that always returns 0, one channel, a sample rate of 1
  and one second: with two frames the loop is left with the points 0 and 1; with one
  frame it is never left.
\<close>

theorem test_clip_loop_exit_witness:
  "clip_loop \<lparr>new_Random = \<lambda>seed. (), next_value = \<lambda>g. (0, g), random_double = \<lambda>g. (0, g)\<rparr>
     \<lparr>mark_sync_frame_count = 1, mark_data_frame_count = 1, frame_size = 1\<rparr>
     \<lparr>samples = [0, 0], n_channels = 1, sample_rate = 1, bit_depth = 16\<rparr> 1 () =
     Some (Defined (0, 1)) \<and>
   (1 :: 64 word) <
     n_frames \<lparr>samples = [0, 0], n_channels = 1, sample_rate = 1, bit_depth = 16\<rparr> \<and>
   unit_interval \<lparr>new_Random = \<lambda>seed. (), next_value = \<lambda>g. (0, g),
     random_double = \<lambda>g. (0, g)\<rparr> \<and>
   clip_defined \<lparr>samples = [0], n_channels = 1, sample_rate = 1, bit_depth = 16\<rparr> 1 \<and>
   uint (n_frames \<lparr>samples = [0], n_channels = 1, sample_rate = 1, bit_depth = 16\<rparr>) = 1 \<and>
   clip_loop \<lparr>new_Random = \<lambda>seed. (), next_value = \<lambda>g. (0, g), random_double = \<lambda>g. (0, g)\<rparr>
     \<lparr>mark_sync_frame_count = 1, mark_data_frame_count = 1, frame_size = 1\<rparr>
     \<lparr>samples = [0], n_channels = 1, sample_rate = 1, bit_depth = 16\<rparr> 1 () = None \<and>
   test_clip \<lparr>new_Random = \<lambda>seed. (), next_value = \<lambda>g. (0, g), random_double = \<lambda>g. (0, g)\<rparr>
     \<lparr>mark_sync_frame_count = 1, mark_data_frame_count = 1, frame_size = 1\<rparr>
     (\<lambda>f. Inr \<lparr>samples = [0], n_channels = 1, sample_rate = 1, bit_depth = 16\<rparr>)
     (\<lambda>w f. None) ''in.wav'' ''out.wav'' 0 1 = None"
proof -
  let ?R = "\<lparr>new_Random = \<lambda>seed. (), next_value = \<lambda>g. (0 :: 64 word, g),
    random_double = \<lambda>g. (0 :: real, g)\<rparr>"
  let ?G = "\<lparr>mark_sync_frame_count = 1, mark_data_frame_count = 1, frame_size = 1\<rparr>"
  let ?long = "\<lparr>samples = [0, 0], n_channels = 1, sample_rate = 1, bit_depth = 16\<rparr>"
  let ?short = "\<lparr>samples = [0], n_channels = 1, sample_rate = 1, bit_depth = 16\<rparr>"
  have t0: "to_size_t 0 = Defined 0"
    by (simp add: to_size_t_def truncated_def)
  have ex: "clip_loop ?R ?G ?long 1 () = Some (Defined (0, 1))"
    by (subst clip_loop.simps)
      (simp add: clip_points_def clip_defined_def t0 n_values_def)
  from test_clip_loop_exit [of ?R ?G ?long 1 "()" 0 1] ex
  have lt: "(1 :: 64 word) < n_frames ?long"
    by simp
  have ui: "unit_interval ?R"
    by (simp add: unit_interval_def)
  have cd: "clip_defined ?short 1"
    by (simp add: clip_defined_def)
  have nf: "uint (n_frames ?short) = 1"
    by (simp add: n_frames_def n_values_def)
  have nw: "unat (2 * values_per_block ?G ?short) + nat (1 * sample_rate ?short) < 2 ^ 64"
    by (simp add: values_per_block_def)
  from test_clip_loop_exit [of ?R ?G ?short 1 "()" 0 0
      "\<lambda>f. Inr ?short" "''in.wav''" "\<lambda>w f. None" "''out.wav''" 0] ui cd nf nw
  have "clip_loop ?R ?G ?short 1 () = None \<and>
      test_clip ?R ?G (\<lambda>f. Inr ?short) (\<lambda>w f. None) ''in.wav'' ''out.wav'' 0 1 = None"
    by simp
  with ex lt ui cd nf show ?thesis
    by blast
qed

section \<open>Claim C10: ArgParser::parse_opt with a value\<close>




section \<open>Further properties of the command line\<close>

text \<open>
  \<^verbatim>\<open>parse_opt\<close> without a value returns whether the option is one of the arguments and
  erases its first occurrence only.
\<close>

theorem parse_opt_flag_first:
  "parse_opt_flag option args = (option \<in> set args, remove1 option args)"
  by (simp add: parse_opt_flag_eq flag_given_def)

text \<open>
  \<^verbatim>\<open>parse_positional\<close> returns the remaining arguments exactly when their number is
  the expected one and none of them looks like an option; otherwise it exits.
\<close>

theorem parse_positional_accepts:
  "parse_positional command vs args = Inr r \<longleftrightarrow>
     r = args \<and> length args = length vs \<and> \<not> list_ex is_option args"
  by (auto simp: parse_positional_def parse_args_def split: option.splits)

text \<open>
  With \<^verbatim>\<open>--help\<close> or \<^verbatim>\<open>-h\<close> anywhere among the arguments, \<^verbatim>\<open>main\<close> prints the usage and
  returns 0, whatever else is given.
\<close>

theorem main_prints_usage:
  "flag_given ''--help'' args \<or> flag_given ''-h'' args \<Longrightarrow> main ext P args = Usage_printed"
  by (auto simp: main_def case_prod_beta Let_def)

text \<open>The theorem at \<^verbatim>\<open>add -h in.wav\<close>.\<close>

theorem main_prints_usage_witness:
  "flag_given ''-h'' [''add'', ''-h'', ''in.wav''] \<and>
   main example_externals zero_Params [''add'', ''-h'', ''in.wav''] = Usage_printed"
proof -
  have "flag_given ''-h'' [''add'', ''-h'', ''in.wav'']"
    by (simp add: flag_given_def)
  with main_prints_usage [of "[''add'', ''-h'', ''in.wav'']" example_externals zero_Params]
  show ?thesis by simp
qed

text \<open>
  When none of the global options is among the arguments, \<^verbatim>\<open>main\<close> goes on to the
  chain of commands with the arguments and the parameters unchanged.
\<close>

theorem main_without_global_flags:
  assumes "set args \<inter> set global_flags = {}"
  shows "main ext P args = dispatch ext P args"
proof -
  from assms have n: "''--help'' \<notin> set args" "''-h'' \<notin> set args" "''--help-hls'' \<notin> set args"
    "''--version'' \<notin> set args" "''-v'' \<notin> set args" "''--quiet'' \<notin> set args"
    "''-q'' \<notin> set args" "''--strict'' \<notin> set args"
    by (auto simp: global_flags_def)
  then show ?thesis
    by (simp add: main_def case_prod_beta Let_def flag_given_def remove1_idem)
qed

text \<open>
  The theorem at \<^verbatim>\<open>add --key k.key --test-key 7 in.wav out.wav 00ff\<close>: \<^verbatim>\<open>main\<close> fails
  with the error of the key.
\<close>

theorem main_without_global_flags_witness:
  "set [''add'', ''--key'', ''k.key'', ''--test-key'', ''7'', ''in.wav'', ''out.wav'', ''00ff'']
     \<inter> set global_flags = {} \<and>
   main example_externals zero_Params
     [''add'', ''--key'', ''k.key'', ''--test-key'', ''7'', ''in.wav'', ''out.wav'', ''00ff''] =
     Failed Key_set_more_than_once"
proof -
  let ?args = "[''add'', ''--key'', ''k.key'', ''--test-key'', ''7'', ''in.wav'', ''out.wav'', ''00ff'']"
  have d: "set ?args \<inter> set global_flags = {}"
    by (simp add: global_flags_def)
  have "parse_shared_options example_externals zero_Params (tl ?args) = Inl Key_set_more_than_once"
    by (simp add: parse_shared_options_def evaluate examples)
  then have "cmd_add example_externals zero_Params (tl ?args) = Failed Key_set_more_than_once"
    by (simp add: cmd_add_def and_then_def finish_def)
  moreover have "dispatch example_externals zero_Params ?args =
      cmd_add example_externals zero_Params (tl ?args)"
    by (simp add: dispatch_def parse_cmd_def erase_def)
  ultimately show ?thesis
    using main_without_global_flags [OF d, of example_externals zero_Params] d by simp
qed

text \<open>The first argument selects the branch of \<^verbatim>\<open>main\<close>; the branch gets the others.\<close>

theorem dispatch_commands:
  "dispatch ext P (''hls-add'' # rest) = cmd_hls_add ext P rest \<and>
   dispatch ext P (''hls-prepare'' # rest) = cmd_hls_prepare ext P rest \<and>
   dispatch ext P (''add'' # rest) = cmd_add ext P rest \<and>
   dispatch ext P (''get'' # rest) = cmd_get ext P rest \<and>
   dispatch ext P (''cmp'' # rest) = cmd_cmp ext P rest \<and>
   dispatch ext P (''gen-key'' # rest) = cmd_gen_key P rest \<and>
   dispatch ext P (''gentest'' # rest) = cmd_gentest P rest \<and>
   dispatch ext P (''cut-start'' # rest) = cmd_cut_start P rest \<and>
   dispatch ext P (''test-subtract'' # rest) = cmd_test_subtract P rest \<and>
   dispatch ext P (''test-snr'' # rest) = cmd_test_snr P rest \<and>
   dispatch ext P (''test-clip'' # rest) = cmd_test_clip ext P rest \<and>
   dispatch ext P (''test-speed'' # rest) = cmd_test_speed ext P rest \<and>
   dispatch ext P (''test-gen-noise'' # rest) = cmd_test_gen_noise ext P rest \<and>
   dispatch ext P (''test-change-speed'' # rest) = cmd_test_change_speed ext P rest \<and>
   dispatch ext P (''test-resample'' # rest) = cmd_test_resample ext P rest"
  by (simp add: dispatch_def parse_cmd_def erase_def)


end
